theory Spec2Isabelle
  imports Complex_Main "HOL-Library.Sublist" "HOL-Library.List_Lexorder" "HOL-Library.Char_ord"
begin

section \<open>Strings\<close>

text \<open>
  Python strings are modelled as \<open>string\<close> (lists of 8-bit characters). The case
  conversions \<open>str.lower\<close> and \<open>str.upper\<close> are modelled on the ASCII letters, the
  alphabet of file extensions; every other character is left as it is.
\<close>

definition upper_letters :: string where
  "upper_letters = ''ABCDEFGHIJKLMNOPQRSTUVWXYZ''"

definition lower_letters :: string where
  "lower_letters = ''abcdefghijklmnopqrstuvwxyz''"

definition lower_char :: "char \<Rightarrow> char" where
  "lower_char c = (case map_of (zip upper_letters lower_letters) c of Some d \<Rightarrow> d | None \<Rightarrow> c)"

definition upper_char :: "char \<Rightarrow> char" where
  "upper_char c = (case map_of (zip lower_letters upper_letters) c of Some d \<Rightarrow> d | None \<Rightarrow> c)"

definition lower :: "string \<Rightarrow> string" where
  "lower s = map lower_char s"

definition upper :: "string \<Rightarrow> string" where
  "upper s = map upper_char s"

text \<open>\<open>s.lstrip(".")\<close>: every leading dot is removed.\<close>

definition lstrip_dot :: "string \<Rightarrow> string" where
  "lstrip_dot s = dropWhile (\<lambda>c. c = CHR ''.'') s"

text \<open>\<open>s.rfind(c)\<close>: the index of the last occurrence, \<open>None\<close> for Python's \<open>-1\<close>.\<close>

fun rfind :: "char \<Rightarrow> string \<Rightarrow> nat option" where
  "rfind c [] = None"
| "rfind c (x # xs) =
     (case rfind c xs of
        Some i \<Rightarrow> Some (Suc i)
      | None \<Rightarrow> if x = c then Some 0 else None)"

text \<open>\<open>str(n)\<close> and the f-string rendering \<open>{n}\<close> of a non-negative integer: decimal digits.\<close>

definition digit_char :: "nat \<Rightarrow> char" where
  "digit_char d = ''0123456789'' ! d"

function str_nat :: "nat \<Rightarrow> string" where
  "str_nat n = (if n < 10 then [digit_char n] else str_nat (n div 10) @ [digit_char (n mod 10)])"
  by pat_completeness auto
termination
  by (relation "measure (\<lambda>n. n)") auto

declare str_nat.simps [simp del]

section \<open>Paths\<close>

text \<open>
  A \<open>pathlib.Path\<close> is its list of components together with the fact whether it is
  anchored at the root. Components are plain entry names: the model has no \<open>..\<close>
  component and no symbolic link, so a path names the same entry however it is reached.
\<close>

datatype path = Absolute "string list" | Relative "string list"

fun parts :: "path \<Rightarrow> string list" where
  "parts (Absolute ps) = ps"
| "parts (Relative ps) = ps"

fun is_absolute :: "path \<Rightarrow> bool" where
  "is_absolute (Absolute ps) = True"
| "is_absolute (Relative ps) = False"

text \<open>The operator \<open>/\<close> of pathlib: an absolute right operand replaces the left one.\<close>

fun pjoin :: "path \<Rightarrow> path \<Rightarrow> path" where
  "pjoin p (Absolute qs) = Absolute qs"
| "pjoin (Absolute ps) (Relative qs) = Absolute (ps @ qs)"
| "pjoin (Relative ps) (Relative qs) = Relative (ps @ qs)"

text \<open>
  \<open>p / name\<close> for a string \<open>name\<close> that is one component; joining the empty string
  leaves the path as it is.
\<close>

definition pchild :: "path \<Rightarrow> string \<Rightarrow> path" where
  "pchild p n = (if n = [] then p else pjoin p (Relative [n]))"

definition pname :: "path \<Rightarrow> string" where
  "pname p = (if parts p = [] then [] else last (parts p))"


text \<open>
  \<open>PurePath.suffix\<close> and \<open>PurePath.stem\<close> as pathlib computes them up to Python 3.13:
  with \<open>i = name.rfind('.')\<close>, the suffix is \<open>name[i:]\<close> when \<open>0 < i < len(name) - 1\<close>
  and empty otherwise; the stem is the rest of the name.
\<close>

definition name_suffix :: "string \<Rightarrow> string" where
  "name_suffix n =
     (case rfind CHR ''.'' n of
        None \<Rightarrow> []
      | Some i \<Rightarrow> if 0 < i \<and> i + 1 < length n then drop i n else [])"

definition name_stem :: "string \<Rightarrow> string" where
  "name_stem n =
     (case rfind CHR ''.'' n of
        None \<Rightarrow> n
      | Some i \<Rightarrow> if 0 < i \<and> i + 1 < length n then take i n else n)"

definition psuffix :: "path \<Rightarrow> string" where
  "psuffix p = name_suffix (pname p)"

definition pstem :: "path \<Rightarrow> string" where
  "pstem p = name_stem (pname p)"

section \<open>Configuration and metadata\<close>

text \<open>
  The dictionary returned by \<open>get_file_metadata\<close>. \<open>size_gb\<close> is the quotient of the
  size in bytes by \<open>1024 ** 3\<close>; the quotient and its comparisons with the configured
  bounds are modelled over the rationals.
\<close>

record metadata =
  md_extension :: string
  md_size_gb :: rat
  md_year :: nat

text \<open>
  One value of the \<open>routing\<close> dictionary. A key that may be absent in the JSON object
  is an option; \<open>rules.get("year", False)\<close> and \<open>rules.get("file_type", False)\<close> are
  the two flags with their defaults.
\<close>

record rule =
  r_path :: "path option"
  r_extensions :: "string list option"
  r_min_gb :: "rat option"
  r_max_gb :: "rat option"
  r_year :: bool
  r_file_type :: bool

text \<open>
  \<open>config["routing"]\<close>: a dictionary in insertion order, that is the list of its items.
\<close>

type_synonym routing = "(string \<times> rule) list"

section \<open>Classification (engine.py)\<close>

text \<open>
  \<open>_rule_matches\<close>. \<open>rules.get("extensions", [])\<close> followed by \<open>if extensions:\<close> treats
  an absent and an empty list alike. The value read from \<open>rules.get("year", False)\<close> is
  never used.
\<close>

definition rule_matches :: "metadata \<Rightarrow> rule \<Rightarrow> bool" where
  "rule_matches md rules =
     (let extensions = (case r_extensions rules of None \<Rightarrow> [] | Some es \<Rightarrow> es) in
      if extensions \<noteq> [] \<and> md_extension md \<notin> set extensions then False
      else if (case r_min_gb rules of None \<Rightarrow> False | Some m \<Rightarrow> md_size_gb md < m) then False
      else if (case r_max_gb rules of None \<Rightarrow> False | Some m \<Rightarrow> md_size_gb md > m) then False
      else True)"

fun match_category :: "metadata \<Rightarrow> routing \<Rightarrow> string" where
  "match_category md [] = ''Others''"
| "match_category md ((category, rules) # rest) =
     (if category = ''Others'' \<or> category = ''Folders'' then match_category md rest
      else if \<not> rule_matches md rules then match_category md rest
      else category)"

text \<open>
  The rule of section 4.2 of the specification, in its words: the extension is a member
  of a configured non-empty list, and the size respects each configured bound.
\<close>

definition fully_matches :: "metadata \<Rightarrow> rule \<Rightarrow> bool" where
  "fully_matches md rules \<longleftrightarrow>
     (case r_extensions rules of
        None \<Rightarrow> True
      | Some es \<Rightarrow> es = [] \<or> md_extension md \<in> set es) \<and>
     (case r_min_gb rules of None \<Rightarrow> True | Some m \<Rightarrow> md_size_gb md \<ge> m) \<and>
     (case r_max_gb rules of None \<Rightarrow> True | Some m \<Rightarrow> md_size_gb md \<le> m)"

text \<open>A category that classification may select: not reserved, and its rule matches.\<close>

definition eligible :: "metadata \<Rightarrow> string \<times> rule \<Rightarrow> bool" where
  "eligible md item \<longleftrightarrow>
     fst item \<noteq> ''Others'' \<and> fst item \<noteq> ''Folders'' \<and> fully_matches md (snd item)"

lemma rule_matches_iff: "rule_matches md rules \<longleftrightarrow> fully_matches md rules"
  by (auto simp: rule_matches_def fully_matches_def Let_def split: option.splits)

lemma rule_matches_year: "rule_matches md (rules\<lparr>r_year := b\<rparr>) = rule_matches md rules"
  by (simp add: rule_matches_def)

lemma match_category_find:
  "match_category md routing =
     (case find (eligible md) routing of None \<Rightarrow> ''Others'' | Some item \<Rightarrow> fst item)"
  by (induction routing) (auto simp: eligible_def rule_matches_iff)

section \<open>The file system\<close>

text \<open>
  The state that \<open>pathlib\<close>, \<open>os\<close> and \<open>shutil\<close> read and change: the entries below
  the root, each under its absolute list of components, and the working directory
  that relative paths start from. A regular file carries what \<open>stat\<close> reports and the
  program reads (the size in bytes, and the year of its birth time), and contents that
  a move carries along. The root is a directory and is not stored. The order of the
  entries is the order in which a directory listing reports them.
\<close>

record file_stat =
  f_size :: nat
  f_year :: nat
  f_data :: nat

datatype node = File file_stat | Dir

type_synonym key = "string list"

record fs =
  cwd :: key
  entries :: "(key \<times> node) list"

datatype error = ValueError | KeyError | OSError | ShutilError

definition key :: "fs \<Rightarrow> path \<Rightarrow> key" where
  "key fs p = (case p of Absolute ps \<Rightarrow> ps | Relative ps \<Rightarrow> cwd fs @ ps)"

definition lookup :: "fs \<Rightarrow> key \<Rightarrow> node option" where
  "lookup fs k = (if k = [] then Some Dir else map_of (entries fs) k)"

definition p_exists :: "fs \<Rightarrow> path \<Rightarrow> bool" where
  "p_exists fs p \<longleftrightarrow> lookup fs (key fs p) \<noteq> None"

definition is_file :: "fs \<Rightarrow> path \<Rightarrow> bool" where
  "is_file fs p \<longleftrightarrow> (case lookup fs (key fs p) of Some (File st) \<Rightarrow> True | _ \<Rightarrow> False)"

definition is_dir :: "fs \<Rightarrow> path \<Rightarrow> bool" where
  "is_dir fs p \<longleftrightarrow> lookup fs (key fs p) = Some Dir"

text \<open>
  \<open>Path.mkdir(parents=True, exist_ok=True)\<close>: it fails, creating nothing, when the path
  or one of its ancestors is a regular file; otherwise every missing directory on the
  way is created.
\<close>

definition mkdir_p :: "fs \<Rightarrow> path \<Rightarrow> (error + unit) \<times> fs" where
  "mkdir_p fs p =
     (let anc = tl (prefixes (key fs p)) in
      if list_ex (\<lambda>q. case lookup fs q of Some (File st) \<Rightarrow> True | _ \<Rightarrow> False) anc
      then (Inl OSError, fs)
      else (Inr (),
            fs\<lparr>entries := entries fs @ map (\<lambda>q. (q, Dir)) (filter (\<lambda>q. lookup fs q = None) anc)\<rparr>))"

text \<open>Renaming an entry takes everything below it along.\<close>

definition rekey :: "key \<Rightarrow> key \<Rightarrow> key \<Rightarrow> key" where
  "rekey s d k = (if prefix s k then d @ drop (length s) k else k)"

definition rename_entries :: "key \<Rightarrow> key \<Rightarrow> (key \<times> node) list \<Rightarrow> (key \<times> node) list" where
  "rename_entries s d es = map (\<lambda>(k, n). (rekey s d k, n)) es"

text \<open>
  \<open>os.rename(s, d)\<close> as \<open>shutil.move\<close> uses it, for a target \<open>d\<close> that is not a
  directory: the source must exist and the target's parent be a directory; a directory
  cannot be moved below itself or onto a regular file; a regular file replaces a
  regular file that is in its way. The working directory follows the directory it is.
\<close>

definition os_rename :: "fs \<Rightarrow> key \<Rightarrow> key \<Rightarrow> (error + unit) \<times> fs" where
  "os_rename fs s d =
     (if lookup fs s = None then (Inl OSError, fs)
      else if d = [] \<or> lookup fs (butlast d) \<noteq> Some Dir then (Inl OSError, fs)
      else if s = d then (Inr (), fs)
      else if lookup fs s = Some Dir then
        (if prefix s d then (Inl ShutilError, fs)
         else if lookup fs d \<noteq> None then (Inl OSError, fs)
         else (Inr (), fs\<lparr>entries := rename_entries s d (entries fs), cwd := rekey s d (cwd fs)\<rparr>))
      else (Inr (), fs\<lparr>entries := rename_entries s d (filter (\<lambda>(k, n). k \<noteq> d) (entries fs)),
                       cwd := rekey s d (cwd fs)\<rparr>))"

text \<open>
  \<open>shutil.move(src, dst)\<close>: when \<open>dst\<close> is an existing directory the source is moved
  into it under its own name, unless that name is taken there; otherwise the source
  is renamed to \<open>dst\<close>.
\<close>

definition shutil_move :: "fs \<Rightarrow> path \<Rightarrow> path \<Rightarrow> (error + unit) \<times> fs" where
  "shutil_move fs src dst =
     (if is_dir fs dst then
        (if key fs src = key fs dst then (Inr (), fs)
         else let real_dst = key fs dst @ [pname src] in
           if lookup fs real_dst \<noteq> None then (Inl ShutilError, fs)
           else os_rename fs (key fs src) real_dst)
      else os_rename fs (key fs src) (key fs dst))"

lemma digit_char_inj: "a < 10 \<Longrightarrow> b < 10 \<Longrightarrow> digit_char a = digit_char b \<Longrightarrow> a = b"
  unfolding digit_char_def
  by (subst (asm) nth_eq_iff_index_eq) simp_all

lemma str_nat_nonempty: "str_nat n \<noteq> []"
  by (subst str_nat.simps) simp

lemma str_nat_inj: "str_nat a = str_nat b \<Longrightarrow> a = b"
proof (induction a arbitrary: b rule: str_nat.induct)
  case (1 n)
  show ?case
  proof (cases "n < 10")
    case True
    show ?thesis
    proof (cases "b < 10")
      case b: True
      from 1(2) True b have "digit_char n = digit_char b"
        by (simp add: str_nat.simps)
      with True b show ?thesis by (rule digit_char_inj)
    next
      case b: False
      from 1(2) True b have "[digit_char n] = str_nat (b div 10) @ [digit_char (b mod 10)]"
        by (simp add: str_nat.simps[of n] str_nat.simps[of b])
      then have "str_nat (b div 10) = []" by simp
      then show ?thesis by (simp add: str_nat_nonempty)
    qed
  next
    case False
    show ?thesis
    proof (cases "b < 10")
      case b: True
      from 1(2) False b have "str_nat (n div 10) @ [digit_char (n mod 10)] = [digit_char b]"
        by (simp add: str_nat.simps[of n] str_nat.simps[of b])
      then have "str_nat (n div 10) = []" by simp
      then show ?thesis by (simp add: str_nat_nonempty)
    next
      case b: False
      from 1(2) False b
      have "str_nat (n div 10) @ [digit_char (n mod 10)] = str_nat (b div 10) @ [digit_char (b mod 10)]"
        by (simp add: str_nat.simps[of n] str_nat.simps[of b])
      then have e1: "str_nat (n div 10) = str_nat (b div 10)"
        and e2: "digit_char (n mod 10) = digit_char (b mod 10)" by simp_all
      from 1(1)[OF False e1] have d: "n div 10 = b div 10" .
      from e2 have m: "n mod 10 = b mod 10" by (intro digit_char_inj) simp_all
      from d m show ?thesis by (metis div_mult_mod_eq)
    qed
  qed
qed

text \<open>The f-string \<open>f"{stem}_{counter}{suffix}"\<close>.\<close>

definition numbered :: "string \<Rightarrow> string \<Rightarrow> nat \<Rightarrow> string" where
  "numbered stem sfx counter = stem @ ''_'' @ str_nat counter @ sfx"

lemma numbered_inj: "numbered stem sfx a = numbered stem sfx b \<Longrightarrow> a = b"
  by (simp add: numbered_def str_nat_inj)

lemma numbered_nonempty: "numbered stem sfx a \<noteq> []"
  by (simp add: numbered_def)

lemma key_pchild: "n \<noteq> [] \<Longrightarrow> key fs (pchild p n) = key fs p @ [n]"
  by (cases p) (simp_all add: pchild_def key_def)

lemma finite_taken:
  "finite {k. p_exists fs (pchild dest_dir (numbered stem sfx k))}"
proof -
  let ?f = "\<lambda>k. key fs dest_dir @ [numbered stem sfx k]"
  have "inj ?f" by (auto simp: inj_def dest: numbered_inj)
  then have "finite (?f -` (fst ` set (entries fs)))"
    by (intro finite_vimageI) simp_all
  moreover have "{k. p_exists fs (pchild dest_dir (numbered stem sfx k))} \<subseteq> ?f -` (fst ` set (entries fs))"
    by (auto simp: p_exists_def lookup_def key_pchild numbered_nonempty map_of_eq_None_iff)
  ultimately show ?thesis by (rule rev_finite_subset)
qed

text \<open>
  The \<open>while True\<close> loop of \<open>safe_move\<close>, entered with \<open>counter = 1\<close>. It ends because
  the names it tries are pairwise different and the directory has finitely many entries.
\<close>

function find_free :: "fs \<Rightarrow> path \<Rightarrow> string \<Rightarrow> string \<Rightarrow> nat \<Rightarrow> path" where
  "find_free fs dest_dir stem sfx counter =
     (let dest = pchild dest_dir (numbered stem sfx counter) in
      if \<not> p_exists fs dest then dest
      else find_free fs dest_dir stem sfx (counter + 1))"
  by pat_completeness auto
termination
proof (relation "measure (\<lambda>(fs, dest_dir, stem, sfx, counter).
          card {k. counter \<le> k \<and> p_exists fs (pchild dest_dir (numbered stem sfx k))})")
  show "wf (measure (\<lambda>(fs, dest_dir, stem, sfx, counter).
          card {k. counter \<le> k \<and> p_exists fs (pchild dest_dir (numbered stem sfx k))}))"
    by simp
next
  fix fs :: fs and dest_dir stem sfx counter x
  assume x: "x = pchild dest_dir (numbered stem sfx counter)" and "\<not> \<not> p_exists fs x"
  then have ex: "p_exists fs (pchild dest_dir (numbered stem sfx counter))" by simp
  let ?S = "\<lambda>c. {k. c \<le> k \<and> p_exists fs (pchild dest_dir (numbered stem sfx k))}"
  have fin: "finite (?S counter)"
    by (rule rev_finite_subset[OF finite_taken[of fs dest_dir stem sfx]]) auto
  have "counter \<in> ?S counter" "counter \<notin> ?S (counter + 1)" "?S (counter + 1) \<subseteq> ?S counter"
    using ex by auto
  then have "?S (counter + 1) \<subset> ?S counter"
    by blast
  then have "card (?S (counter + 1)) < card (?S counter)"
    using fin by (rule psubset_card_mono[rotated])
  then show "((fs, dest_dir, stem, sfx, counter + 1), (fs, dest_dir, stem, sfx, counter))
      \<in> measure (\<lambda>(fs, dest_dir, stem, sfx, counter).
          card {k. counter \<le> k \<and> p_exists fs (pchild dest_dir (numbered stem sfx k))})"
    by simp
qed

declare find_free.simps [simp del]

text \<open>\<open>safe_move\<close>. A failure leaves the directories that were already created.\<close>

definition safe_move :: "fs \<Rightarrow> path \<Rightarrow> path \<Rightarrow> (error + path) \<times> fs" where
  "safe_move fs src dest_dir =
     (case mkdir_p fs dest_dir of
        (Inl e, fs1) \<Rightarrow> (Inl e, fs1)
      | (Inr u, fs1) \<Rightarrow>
          (let dest0 = pchild dest_dir (pname src);
               dest = (if p_exists fs1 dest0
                       then find_free fs1 dest_dir (pstem src) (psuffix src) 1
                       else dest0)
           in case shutil_move fs1 src dest of
                (Inl e, fs2) \<Rightarrow> (Inl e, fs2)
              | (Inr u, fs2) \<Rightarrow> (Inr dest, fs2)))"

text \<open>
  \<open>get_file_metadata\<close>. Its callers apply it to regular files; the \<open>stat\<close> of a
  directory is not part of the model, and the call fails there as for a missing path.
\<close>

definition get_file_metadata :: "fs \<Rightarrow> path \<Rightarrow> error + metadata" where
  "get_file_metadata fs p =
     (case lookup fs (key fs p) of
        Some (File st) \<Rightarrow>
          Inr \<lparr>md_extension = lower (psuffix p),
               md_size_gb = of_nat (f_size st) / 1024 ^ 3,
               md_year = f_year st\<rparr>
      | _ \<Rightarrow> Inl OSError)"

record config =
  c_routing :: routing
  c_monitored_sources :: "path list"

text \<open>\<open>sort_file\<close>; \<open>routing[category]\<close> and \<open>["path"]\<close> raise \<open>KeyError\<close> on a missing key.\<close>

definition sort_file :: "fs \<Rightarrow> path \<Rightarrow> config \<Rightarrow> path option \<Rightarrow> (error + string \<times> path) \<times> fs" where
  "sort_file fs filepath config base_dir =
     (if \<not> is_file fs filepath then (Inl ValueError, fs)
      else case get_file_metadata fs filepath of
        Inl e \<Rightarrow> (Inl e, fs)
      | Inr metadata \<Rightarrow>
          (let category = match_category metadata (c_routing config) in
           case map_of (c_routing config) category of
             None \<Rightarrow> (Inl KeyError, fs)
           | Some rules \<Rightarrow>
               (case r_path rules of
                  None \<Rightarrow> (Inl KeyError, fs)
                | Some p \<Rightarrow>
                    (let dest_dir1 = (if r_year rules then pchild p (str_nat (md_year metadata)) else p);
                         ext = lstrip_dot (md_extension metadata);
                         ext_folder = (if ext \<noteq> [] then upper ext else ''UNKNOWN'');
                         dest_dir2 = (if r_file_type rules then pchild dest_dir1 ext_folder else dest_dir1);
                         dest_dir = (case base_dir of
                                       None \<Rightarrow> dest_dir2
                                     | Some b \<Rightarrow> if \<not> is_absolute dest_dir2 then pjoin b dest_dir2
                                                else dest_dir2)
                     in case safe_move fs filepath dest_dir of
                          (Inl e, fs') \<Rightarrow> (Inl e, fs')
                        | (Inr final, fs') \<Rightarrow> (Inr (category, final), fs')))))"

definition sort_folder :: "fs \<Rightarrow> path \<Rightarrow> config \<Rightarrow> path option \<Rightarrow> (error + string \<times> path) \<times> fs" where
  "sort_folder fs folderpath config base_dir =
     (if \<not> is_dir fs folderpath then (Inl ValueError, fs)
      else case map_of (c_routing config) ''Folders'' of
        None \<Rightarrow> (Inl KeyError, fs)
      | Some rules \<Rightarrow>
          (case r_path rules of
             None \<Rightarrow> (Inl KeyError, fs)
           | Some p \<Rightarrow>
               (let dest_dir = (case base_dir of
                                  None \<Rightarrow> p
                                | Some b \<Rightarrow> if \<not> is_absolute p then pjoin b p else p)
                in case safe_move fs folderpath dest_dir of
                     (Inl e, fs') \<Rightarrow> (Inl e, fs')
                   | (Inr final, fs') \<Rightarrow> (Inr (''Folders'', final), fs'))))"

text \<open>
  A well-formed file system: no entry is stored twice, the root is not stored, every
  entry lies in a directory, and the working directory is a directory.
\<close>

definition wf_fs :: "fs \<Rightarrow> bool" where
  "wf_fs fs \<longleftrightarrow>
     distinct (map fst (entries fs)) \<and>
     (\<forall>k \<in> fst ` set (entries fs). k \<noteq> [] \<and> lookup fs (butlast k) = Some Dir) \<and>
     lookup fs (cwd fs) = Some Dir"

section \<open>Batch sorting: \<open>manual.py\<close>\<close>

subsection \<open>Walking directories\<close>

text \<open>
  Directory listings. The names found in a directory are the stored keys one level
  below it, each once, in the order of the store; the order in which the operating
  system lists a directory is not specified.
\<close>

definition listing :: "fs \<Rightarrow> key \<Rightarrow> key list" where
  "listing fs k = filter (\<lambda>c. c \<noteq> [] \<and> butlast c = k) (remdups (map fst (entries fs)))"

definition is_file_key :: "fs \<Rightarrow> key \<Rightarrow> bool" where
  "is_file_key fs c \<longleftrightarrow> (case lookup fs c of Some (File st) \<Rightarrow> True | _ \<Rightarrow> False)"

definition file_names :: "fs \<Rightarrow> key \<Rightarrow> string list" where
  "file_names fs k = map last (filter (is_file_key fs) (listing fs k))"

definition dir_names :: "fs \<Rightarrow> key \<Rightarrow> string list" where
  "dir_names fs k = map last (filter (\<lambda>c. lookup fs c = Some Dir) (listing fs k))"

definition below :: "fs \<Rightarrow> key \<Rightarrow> key set" where
  "below fs k = {c \<in> fst ` set (entries fs). strict_prefix k c}"

lemma finite_below: "finite (below fs k)"
  by (simp add: below_def)

lemma dir_names_below:
  assumes "n \<in> set (dir_names fs k)"
  shows "below fs (k @ [n]) \<subset> below fs k"
proof -
  from assms obtain c where c: "c \<in> set (listing fs k)" "n = last c"
    by (auto simp: dir_names_def)
  then have "c \<noteq> []" "butlast c = k" "c \<in> fst ` set (entries fs)"
    by (auto simp: listing_def)
  with c have kc: "k @ [n] = c" by (metis append_butlast_last_id)
  have "k @ [n] \<in> below fs k"
    using \<open>c \<in> fst ` set (entries fs)\<close> kc by (auto simp: below_def strict_prefix_def)
  moreover have "k @ [n] \<notin> below fs (k @ [n])" by (simp add: below_def)
  moreover have "below fs (k @ [n]) \<subseteq> below fs k"
    by (auto simp: below_def strict_prefix_def prefix_def)
  ultimately show ?thesis by blast
qed

text \<open>
  \<open>os.walk(top)\<close>, top-down: the files of a directory first, then its subdirectories
  one after the other, each walked in the same way. The result lists the files
  relative to \<open>top\<close>.
\<close>

function walk_files :: "fs \<Rightarrow> key \<Rightarrow> string list list" where
  "walk_files fs k =
     map (\<lambda>n. [n]) (file_names fs k) @
     concat (map (\<lambda>n. map ((#) n) (walk_files fs (k @ [n]))) (dir_names fs k))"
  by pat_completeness auto
termination
proof (relation "measure (\<lambda>(fs, k). card (below fs k))")
  show "wf (measure (\<lambda>(fs, k). card (below fs k)))" by simp
next
  fix fs k n
  assume "n \<in> set (dir_names fs k)"
  then have "below fs (k @ [n]) \<subset> below fs k" by (rule dir_names_below)
  then have "card (below fs (k @ [n])) < card (below fs k)"
    by (rule psubset_card_mono[OF finite_below])
  then show "((fs, k @ [n]), (fs, k)) \<in> measure (\<lambda>(fs, k). card (below fs k))" by simp
qed

declare walk_files.simps [simp del]

text \<open>\<open>_collect_all_files\<close>: every file below the directory, as \<open>Path(root) / fn\<close>.\<close>

definition collect_all_files :: "fs \<Rightarrow> path \<Rightarrow> path list" where
  "collect_all_files fs directory =
     map (\<lambda>r. pjoin directory (Relative r)) (walk_files fs (key fs directory))"

text \<open>
  \<open>os.walk(top, topdown=False)\<close> yields a directory after its subdirectories; the loop
  of \<open>_remove_empty_dirs\<close> then visits the subdirectories listed in it. The function
  gives the directories in the order in which that loop visits them.
\<close>

function post_dirs :: "fs \<Rightarrow> key \<Rightarrow> key list" where
  "post_dirs fs k =
     concat (map (\<lambda>n. post_dirs fs (k @ [n])) (dir_names fs k)) @
     map (\<lambda>n. k @ [n]) (dir_names fs k)"
  by pat_completeness auto
termination
proof (relation "measure (\<lambda>(fs, k). card (below fs k))")
  show "wf (measure (\<lambda>(fs, k). card (below fs k)))" by simp
next
  fix fs k n
  assume "n \<in> set (dir_names fs k)"
  then have "below fs (k @ [n]) \<subset> below fs k" by (rule dir_names_below)
  then have "card (below fs (k @ [n])) < card (below fs k)"
    by (rule psubset_card_mono[OF finite_below])
  then show "((fs, k @ [n]), (fs, k)) \<in> measure (\<lambda>(fs, k). card (below fs k))" by simp
qed

declare post_dirs.simps [simp del]

text \<open>
  One round of the loop: \<open>if not any(dp.iterdir()): dp.rmdir()\<close>, an \<open>OSError\<close> being
  passed over.
\<close>

definition rmdir_if_empty :: "fs \<Rightarrow> key \<Rightarrow> fs" where
  "rmdir_if_empty fs k =
     (if lookup fs k = Some Dir \<and> listing fs k = []
      then fs\<lparr>entries := filter (\<lambda>(c, n). c \<noteq> k) (entries fs)\<rparr>
      else fs)"

definition remove_empty_dirs :: "fs \<Rightarrow> path \<Rightarrow> fs" where
  "remove_empty_dirs fs directory = foldl rmdir_if_empty fs (post_dirs fs (key fs directory))"

text \<open>
  \<open>_sort_single_file\<close>: every exception is caught, the result is the number of files
  moved (1 or 0). With a custom target the category's configured path is not read.
\<close>

definition sort_single_file ::
  "fs \<Rightarrow> path \<Rightarrow> config \<Rightarrow> path option \<Rightarrow> path option \<Rightarrow> nat \<times> fs" where
  "sort_single_file fs filepath config custom_target base_dir =
     (case custom_target of
        Some ct \<Rightarrow>
          (case get_file_metadata fs filepath of
             Inl e \<Rightarrow> (0, fs)
           | Inr metadata \<Rightarrow>
               (let category = match_category metadata (c_routing config);
                    dest_dir0 = pchild ct category;
                    use_year_subfolder =
                      (case map_of (c_routing config) category of
                         None \<Rightarrow> False
                       | Some rules \<Rightarrow> r_year rules);
                    dest_dir = (if use_year_subfolder
                                then pchild dest_dir0 (str_nat (md_year metadata))
                                else dest_dir0)
                in case safe_move fs filepath dest_dir of
                     (Inl e, fs') \<Rightarrow> (0, fs')
                   | (Inr dest, fs') \<Rightarrow> (1, fs')))
      | None \<Rightarrow>
          (case sort_file fs filepath config base_dir of
             (Inl e, fs') \<Rightarrow> (0, fs')
           | (Inr r, fs') \<Rightarrow> (1, fs')))"

subsection \<open>Sync\<close>





subsection \<open>Interactive sorting\<close>

text \<open>
  \<open>sorted(target_dir.iterdir())\<close>: the entries of the directory as paths below it, in
  the order of their names (strings are compared character by character, by code).
\<close>

definition iterdir_sorted :: "fs \<Rightarrow> path \<Rightarrow> path list" where
  "iterdir_sorted fs d = map (\<lambda>n. pjoin d (Relative [n])) (sort (map last (listing fs (key fs d))))"

text \<open>The category folders made inside a custom target; a failing \<open>mkdir\<close> is not caught.\<close>

fun make_category_dirs :: "fs \<Rightarrow> path \<Rightarrow> string list \<Rightarrow> (error + unit) \<times> fs" where
  "make_category_dirs fs custom_target [] = (Inr (), fs)"
| "make_category_dirs fs custom_target (category_name # rest) =
     (case mkdir_p fs (pchild custom_target category_name) of
        (Inl e, fs1) \<Rightarrow> (Inl e, fs1)
      | (Inr u, fs1) \<Rightarrow> make_category_dirs fs1 custom_target rest)"

text \<open>The files of a flattened directory, sorted one by one.\<close>

fun sort_files :: "fs \<Rightarrow> config \<Rightarrow> path option \<Rightarrow> path option \<Rightarrow> path list \<Rightarrow> nat \<times> fs" where
  "sort_files fs config custom_target base_dir [] = (0, fs)"
| "sort_files fs config custom_target base_dir (f # rest) =
     (case sort_single_file fs f config custom_target base_dir of
        (m, fs1) \<Rightarrow>
          (case sort_files fs1 config custom_target base_dir rest of
             (moved, fs2) \<Rightarrow> (m + moved, fs2)))"

text \<open>
  The loop over the entries of the target directory. A file goes through
  \<open>_sort_single_file\<close>, which catches every exception. A directory is flattened, or
  moved whole by \<open>safe_move\<close> (custom target) or \<open>sort_folder\<close> (default routing); these
  two calls stand outside any \<open>try\<close>, so their exception ends the loop and the function.
\<close>

fun sort_entries ::
  "fs \<Rightarrow> config \<Rightarrow> path option \<Rightarrow> path \<Rightarrow> bool \<Rightarrow> path list \<Rightarrow> (error + nat) \<times> fs" where
  "sort_entries fs config custom_target target_dir flatten [] = (Inr 0, fs)"
| "sort_entries fs config custom_target target_dir flatten (entry # rest) =
     (if is_file fs entry then
        (case sort_single_file fs entry config custom_target (Some target_dir) of
           (m, fs1) \<Rightarrow>
             (case sort_entries fs1 config custom_target target_dir flatten rest of
                (Inl e, fs2) \<Rightarrow> (Inl e, fs2)
              | (Inr moved, fs2) \<Rightarrow> (Inr (m + moved), fs2)))
      else if is_dir fs entry then
        (if flatten then
           (case sort_files fs config custom_target (Some target_dir) (collect_all_files fs entry) of
              (m, fs1) \<Rightarrow>
                (let fs2 = remove_empty_dirs fs1 entry;
                     fs3 = rmdir_if_empty fs2 (key fs2 entry)
                 in case sort_entries fs3 config custom_target target_dir flatten rest of
                      (Inl e, fs4) \<Rightarrow> (Inl e, fs4)
                    | (Inr moved, fs4) \<Rightarrow> (Inr (m + moved), fs4)))
         else
           (case (case custom_target of
                    Some ct \<Rightarrow>
                      (case safe_move fs entry (pchild ct ''Folders'') of
                         (Inl e, fs1) \<Rightarrow> (Inl e, fs1)
                       | (Inr dest, fs1) \<Rightarrow> (Inr (''Folders'', dest), fs1))
                  | None \<Rightarrow> sort_folder fs entry config (Some target_dir)) of
              (Inl e, fs1) \<Rightarrow> (Inl e, fs1)
            | (Inr r, fs1) \<Rightarrow>
                (case sort_entries fs1 config custom_target target_dir flatten rest of
                   (Inl e, fs2) \<Rightarrow> (Inl e, fs2)
                 | (Inr moved, fs2) \<Rightarrow> (Inr (1 + moved), fs2))))
      else sort_entries fs config custom_target target_dir flatten rest)"

text \<open>
  \<open>interactive_sort\<close> for the choices 1 (default routing, no custom target) and 2 (a
  custom target): the answers read from the terminal are arguments. The result is the
  number of items routed, or the exception that ended the run.
\<close>

definition interactive_sort ::
  "fs \<Rightarrow> path \<Rightarrow> config \<Rightarrow> path option \<Rightarrow> bool \<Rightarrow> (error + nat) \<times> fs" where
  "interactive_sort fs target_dir config custom_target flatten =
     (case (case custom_target of
              None \<Rightarrow> (Inr (), fs)
            | Some ct \<Rightarrow>
                (case mkdir_p fs ct of
                   (Inl e, fs1) \<Rightarrow> (Inl e, fs1)
                 | (Inr u, fs1) \<Rightarrow> make_category_dirs fs1 ct (map fst (c_routing config)))) of
        (Inl e, fs1) \<Rightarrow> (Inl e, fs1)
      | (Inr u, fs1) \<Rightarrow>
          if \<not> is_dir fs1 target_dir then (Inl OSError, fs1)
          else sort_entries fs1 config custom_target target_dir flatten
                 (iterdir_sorted fs1 target_dir))"

section \<open>The watch loop: \<open>auto.py\<close>\<close>

text \<open>
  The events the handler methods receive from the observer: \<open>on_created\<close> is called
  with a \<open>FileCreatedEvent\<close> or a \<open>DirCreatedEvent\<close>, \<open>on_moved\<close> with a \<open>FileMovedEvent\<close>
  or a \<open>DirMovedEvent\<close>, each carrying its source path and, for a move, the destination.
\<close>

datatype event =
    FileCreatedEvent path
  | DirCreatedEvent path
  | FileMovedEvent path path
  | DirMovedEvent path path

text \<open>
  What \<open>_process\<close> does with a path: it returns without doing anything, \<open>sort_file\<close>
  raises and the exception is reported, or the file is sorted.
\<close>

datatype outcome = Dropped | Failed error | Sorted string path

text \<open>
  \<open>_process\<close>. The file system is read twice: \<open>fs0\<close> is its state when the event
  arrives, \<open>fs1\<close> its state when \<open>time.sleep(1)\<close> returns; other programs may have changed
  it in between. The state returned is the one \<open>_process\<close> leaves.
\<close>

definition process :: "fs \<Rightarrow> fs \<Rightarrow> config \<Rightarrow> path \<Rightarrow> outcome \<times> fs" where
  "process fs0 fs1 config p =
     (if \<not> is_file fs0 p then (Dropped, fs0)
      else if prefix ''.'' (pname p) \<or> prefix ''~'' (pname p) then (Dropped, fs0)
      else if \<not> p_exists fs1 p then (Dropped, fs1)
      else case sort_file fs1 p config None of
             (Inl e, fs2) \<Rightarrow> (Failed e, fs2)
           | (Inr (category, dest), fs2) \<Rightarrow> (Sorted category dest, fs2))"

definition on_created :: "fs \<Rightarrow> fs \<Rightarrow> config \<Rightarrow> event \<Rightarrow> outcome \<times> fs" where
  "on_created fs0 fs1 config ev =
     (case ev of
        FileCreatedEvent src_path \<Rightarrow> process fs0 fs1 config src_path
      | _ \<Rightarrow> (Dropped, fs0))"

definition on_moved :: "fs \<Rightarrow> fs \<Rightarrow> config \<Rightarrow> event \<Rightarrow> outcome \<times> fs" where
  "on_moved fs0 fs1 config ev =
     (case ev of
        FileMovedEvent src_path dest_path \<Rightarrow> process fs0 fs1 config dest_path
      | _ \<Rightarrow> (Dropped, fs0))"

section \<open>The destination directory as the specification words it\<close>




section \<open>Example data\<close>

definition plain_rule :: rule where
  "plain_rule = \<lparr>r_path = None, r_extensions = None, r_min_gb = None, r_max_gb = None,
      r_year = False, r_file_type = False\<rparr>"

definition images_routing :: "string list \<Rightarrow> routing" where
  "images_routing exts =
     [(''Images'', plain_rule\<lparr>r_path := Some (Absolute [''dest'', ''img'']), r_extensions := Some exts\<rparr>),
      (''Others'', plain_rule\<lparr>r_path := Some (Absolute [''dest'', ''misc''])\<rparr>)]"

definition inbox_fs :: fs where
  "inbox_fs = \<lparr>cwd = [''in''],
     entries = [([''in''], Dir),
                ([''in'', ''photo.JPG''], File \<lparr>f_size = 2048, f_year = 2023, f_data = 1\<rparr>),
                ([''in'', ''notes.txt''], File \<lparr>f_size = 10, f_year = 2024, f_data = 2\<rparr>)]\<rparr>"

definition photo_md :: metadata where
  "photo_md = \<lparr>md_extension = ''.jpg'', md_size_gb = 2048 / 1024 ^ 3, md_year = 2023\<rparr>"


definition after_first_move :: fs where
  "after_first_move = \<lparr>cwd = [],
     entries = [([''in1''], Dir),
                ([''out'', ''a.txt''], File \<lparr>f_size = 1, f_year = 2023, f_data = 1\<rparr>),
                ([''in2''], Dir),
                ([''in2'', ''a.txt''], File \<lparr>f_size = 2, f_year = 2024, f_data = 2\<rparr>),
                ([''out''], Dir)]\<rparr>"












text \<open>A watched directory when an event arrives and one second later: one file has
  vanished, one has been replaced by a directory.\<close>

definition watch_fs0 :: fs where
  "watch_fs0 = \<lparr>cwd = [],
     entries = [([''in''], Dir),
                ([''in'', ''.tmp_partial''], File \<lparr>f_size = 1, f_year = 2024, f_data = 1\<rparr>),
                ([''in'', ''~lock''], File \<lparr>f_size = 1, f_year = 2024, f_data = 2\<rparr>),
                ([''in'', ''report.txt''], File \<lparr>f_size = 9, f_year = 2024, f_data = 3\<rparr>),
                ([''in'', ''gone.txt''], File \<lparr>f_size = 1, f_year = 2024, f_data = 4\<rparr>),
                ([''in'', ''turned.txt''], File \<lparr>f_size = 1, f_year = 2024, f_data = 5\<rparr>)]\<rparr>"

definition watch_fs1 :: fs where
  "watch_fs1 = \<lparr>cwd = [],
     entries = [([''in''], Dir),
                ([''in'', ''.tmp_partial''], File \<lparr>f_size = 1, f_year = 2024, f_data = 1\<rparr>),
                ([''in'', ''~lock''], File \<lparr>f_size = 1, f_year = 2024, f_data = 2\<rparr>),
                ([''in'', ''report.txt''], File \<lparr>f_size = 9, f_year = 2024, f_data = 3\<rparr>),
                ([''in'', ''turned.txt''], Dir)]\<rparr>"

definition watch_fs2 :: fs where
  "watch_fs2 = \<lparr>cwd = [],
     entries = [([''in''], Dir),
                ([''in'', ''.tmp_partial''], File \<lparr>f_size = 1, f_year = 2024, f_data = 1\<rparr>),
                ([''in'', ''~lock''], File \<lparr>f_size = 1, f_year = 2024, f_data = 2\<rparr>),
                ([''dest'', ''docs'', ''report.txt''], File \<lparr>f_size = 9, f_year = 2024, f_data = 3\<rparr>),
                ([''in'', ''turned.txt''], Dir),
                ([''dest''], Dir),
                ([''dest'', ''docs''], Dir)]\<rparr>"

definition watch_config :: config where
  "watch_config = \<lparr>c_routing =
       [(''Docs'', plain_rule\<lparr>r_path := Some (Absolute [''dest'', ''docs'']),
                               r_extensions := Some [''.txt'']\<rparr>),
        (''Others'', plain_rule\<lparr>r_path := Some (Absolute [''dest'', ''misc''])\<rparr>)],
     c_monitored_sources = [Absolute [''in'']]\<rparr>"

text \<open>A target directory sorted before with relative category paths, so that it holds
  the folder \<open>Folders\<close>; and a target in which a regular file stands where a category
  directory should be.\<close>

definition rerun_fs :: fs where
  "rerun_fs = \<lparr>cwd = [],
     entries = [([''t''], Dir),
                ([''t'', ''notes.txt''], File \<lparr>f_size = 4, f_year = 2024, f_data = 1\<rparr>),
                ([''t'', ''Folders''], Dir),
                ([''t'', ''Folders'', ''old''], Dir)]\<rparr>"

definition rerun_config :: config where
  "rerun_config = \<lparr>c_routing =
       [(''Docs'', plain_rule\<lparr>r_path := Some (Relative [''Docs'']), r_extensions := Some [''.txt'']\<rparr>),
        (''Others'', plain_rule\<lparr>r_path := Some (Relative [''Others''])\<rparr>),
        (''Folders'', plain_rule\<lparr>r_path := Some (Relative [''Folders''])\<rparr>)],
     c_monitored_sources = []\<rparr>"

definition blocked_config :: config where
  "blocked_config = \<lparr>c_routing =
       [(''Docs'', plain_rule\<lparr>r_path := Some (Relative [''zz'']), r_extensions := Some [''.txt'']\<rparr>),
        (''Others'', plain_rule\<lparr>r_path := Some (Relative [''Others''])\<rparr>),
        (''Folders'', plain_rule\<lparr>r_path := Some (Relative [''Folders''])\<rparr>)],
     c_monitored_sources = []\<rparr>"

definition blocked_fs :: fs where
  "blocked_fs = \<lparr>cwd = [],
     entries = [([''t''], Dir),
                ([''t'', ''notes.txt''], File \<lparr>f_size = 4, f_year = 2024, f_data = 1\<rparr>),
                ([''t'', ''zz''], File \<lparr>f_size = 1, f_year = 2024, f_data = 2\<rparr>),
                ([''t'', ''song.mp3''], File \<lparr>f_size = 5, f_year = 2024, f_data = 3\<rparr>)]\<rparr>"

definition blocked_after :: fs where
  "blocked_after = \<lparr>cwd = [],
     entries = [([''t''], Dir),
                ([''t'', ''notes.txt''], File \<lparr>f_size = 4, f_year = 2024, f_data = 1\<rparr>),
                ([''t'', ''Others'', ''zz''], File \<lparr>f_size = 1, f_year = 2024, f_data = 2\<rparr>),
                ([''t'', ''Others'', ''song.mp3''], File \<lparr>f_size = 5, f_year = 2024, f_data = 3\<rparr>),
                ([''t'', ''Others''], Dir)]\<rparr>"

section \<open>Auxiliary lemmas\<close>

lemmas str_defs = lower_def lower_char_def upper_def upper_char_def upper_letters_def lower_letters_def
  name_suffix_def name_stem_def psuffix_def pstem_def pname_def lstrip_dot_def

lemma md_photo: "get_file_metadata inbox_fs (Absolute [''in'', ''photo.JPG'']) =
   Inr \<lparr>md_extension = ''.jpg'', md_size_gb = 2048 / 1024 ^ 3, md_year = 2023\<rparr>"
  by (simp add: get_file_metadata_def inbox_fs_def lookup_def key_def str_defs)

lemma lower_char_idem: "lower_char (lower_char c) = lower_char c"
  by (simp add: lower_char_def upper_letters_def lower_letters_def)

lemma lower_idem: "lower (lower s) = lower s"
  by (simp add: lower_def lower_char_idem)

lemma md_photo': "get_file_metadata inbox_fs (Absolute [''in'', ''photo.JPG'']) = Inr photo_md"
  by (simp add: md_photo photo_md_def)

lemma get_file_metadata_extension:
  "get_file_metadata fs p = Inr md \<Longrightarrow> md_extension md = lower (psuffix p)"
  by (auto simp: get_file_metadata_def split: option.splits node.splits)

lemma match_category_selected:
  "match_category md routing = c \<Longrightarrow> c \<noteq> ''Others'' \<Longrightarrow>
     \<exists>rules. (c, rules) \<in> set routing \<and> rule_matches md rules"
  by (induction routing) (auto split: if_splits)

subsection \<open>Directories and well-formedness\<close>



lemma lookup_root [simp]: "lookup fs [] = Some Dir"
  by (simp add: lookup_def)


lemma mkdir_p_fail: "mkdir_p fs p = (Inl e, fs1) \<Longrightarrow> fs1 = fs"
  by (auto simp: mkdir_p_def Let_def split: if_splits)










subsection \<open>Renaming\<close>



lemma rekey_under: "prefix s k \<Longrightarrow> rekey s d k = d @ drop (length s) k"
  by (simp add: rekey_def)

lemma rekey_other: "\<not> prefix s k \<Longrightarrow> rekey s d k = k"
  by (simp add: rekey_def)










subsection \<open>The collision-safe move\<close>




subsection \<open>When a move succeeds\<close>






subsection \<open>Evaluation on concrete file systems\<close>

lemma find_free_hit:
  "\<not> p_exists fs (pchild d (numbered stem sfx c)) \<Longrightarrow>
     find_free fs d stem sfx c = pchild d (numbered stem sfx c)"
  by (subst find_free.simps) simp

lemma find_free_miss:
  "p_exists fs (pchild d (numbered stem sfx c)) \<Longrightarrow>
     find_free fs d stem sfx c = find_free fs d stem sfx (c + 1)"
  by (subst find_free.simps) simp

lemma str_nat_digit: "n < 10 \<Longrightarrow> str_nat n = [digit_char n]"
  by (subst str_nat.simps) simp

lemma str_nat_step: "\<not> n < 10 \<Longrightarrow> str_nat n = str_nat (n div 10) @ [digit_char (n mod 10)]"
  by (subst str_nat.simps) simp

lemmas fs_defs = safe_move_def mkdir_p_def shutil_move_def os_rename_def rename_entries_def
  rekey_def lookup_def key_def p_exists_def is_dir_def is_file_def pchild_def numbered_def
  find_free_hit find_free_miss str_nat_digit str_nat_step digit_char_def Let_def



lemma wf_after_first: "wf_fs after_first_move"
  by (simp add: wf_fs_def after_first_move_def lookup_def)





subsection \<open>The planned destination of \<open>sort_file\<close>\<close>






lemma pchild_join: "n \<noteq> [] \<Longrightarrow> pchild p n = pjoin p (Relative [n])"
  by (simp add: pchild_def)


lemma pjoin_base_Relative: "pjoin b (pjoin p (Relative a)) = pjoin (pjoin b p) (Relative a)"
  by (cases p; cases b) simp_all



lemma pjoin_Relative_Nil [simp]: "pjoin p (Relative []) = p"
  by (cases p) simp_all









lemma parts_pjoin_Relative: "parts (pjoin p (Relative a)) = parts p @ a"
  by (cases p) simp_all








subsection \<open>Moving a file into the directory it is in\<close>





subsection \<open>A sync pass on a concrete file system\<close>











subsection \<open>The watch handler\<close>

lemma sort_file_needs_file:
  "\<not> is_file fs p \<Longrightarrow> sort_file fs p config b = (Inl ValueError, fs)"
  by (simp add: sort_file_def)

lemma process_sorted_iff:
  "process fs0 fs1 config p = (Sorted cat dest, fs2) \<longleftrightarrow>
     is_file fs0 p \<and> \<not> prefix ''.'' (pname p) \<and> \<not> prefix ''~'' (pname p)
     \<and> sort_file fs1 p config None = (Inr (cat, dest), fs2)"
proof (cases "is_file fs1 p")
  case True
  then have "p_exists fs1 p"
    by (auto simp: is_file_def p_exists_def split: option.splits)
  then show ?thesis
    by (auto simp: process_def split: prod.splits sum.splits)
next
  case False
  then show ?thesis
    by (auto simp: process_def sort_file_needs_file split: prod.splits sum.splits)
qed

lemma sort_report:
  "sort_file watch_fs1 (Absolute [''in'', ''report.txt'']) watch_config None
     = (Inr (''Docs'', Absolute [''dest'', ''docs'', ''report.txt'']), watch_fs2)"
  by (simp add: watch_fs1_def watch_fs2_def watch_config_def sort_file_def
        get_file_metadata_def plain_rule_def rule_matches_def fs_defs str_defs)

subsection \<open>Batch runs on concrete file systems\<close>

lemma iterdir_rerun:
  "iterdir_sorted rerun_fs (Absolute [''t''])
     = [Absolute [''t'', ''Folders''], Absolute [''t'', ''notes.txt'']]"
  by (simp add: iterdir_sorted_def listing_def key_def rerun_fs_def)

lemma rerun_entries:
  "sort_entries rerun_fs rerun_config None (Absolute [''t'']) False
      [Absolute [''t'', ''Folders''], Absolute [''t'', ''notes.txt'']]
     = (Inl ShutilError, rerun_fs)"
  by (simp add: rerun_fs_def rerun_config_def sort_folder_def plain_rule_def fs_defs str_defs)

lemma rerun_aborts:
  "interactive_sort rerun_fs (Absolute [''t'']) rerun_config None False = (Inl ShutilError, rerun_fs)"
proof -
  have "is_dir rerun_fs (Absolute [''t''])"
    by (simp add: is_dir_def key_def lookup_def rerun_fs_def)
  then show ?thesis
    by (simp add: interactive_sort_def iterdir_rerun rerun_entries del: sort_entries.simps)
qed

lemma iterdir_blocked:
  "iterdir_sorted blocked_fs (Absolute [''t''])
     = [Absolute [''t'', ''notes.txt''], Absolute [''t'', ''song.mp3''], Absolute [''t'', ''zz'']]"
  by (simp add: iterdir_sorted_def listing_def key_def blocked_fs_def)

lemma blocked_entries:
  "sort_entries blocked_fs blocked_config None (Absolute [''t'']) False
      [Absolute [''t'', ''notes.txt''], Absolute [''t'', ''song.mp3''], Absolute [''t'', ''zz'']]
     = (Inr 2, blocked_after)"
  by (simp add: blocked_fs_def blocked_after_def blocked_config_def sort_single_file_def sort_file_def
        get_file_metadata_def rule_matches_def plain_rule_def fs_defs str_defs)

lemma blocked_continues:
  "interactive_sort blocked_fs (Absolute [''t'']) blocked_config None False = (Inr 2, blocked_after)"
proof -
  have "is_dir blocked_fs (Absolute [''t''])"
    by (simp add: is_dir_def key_def lookup_def blocked_fs_def)
  then show ?thesis
    by (simp add: interactive_sort_def iterdir_blocked blocked_entries del: sort_entries.simps)
qed

section \<open>The claims\<close>

text \<open>
  Claim C1. Classification goes through the categories in the order of the mapping,
  passes over the reserved names "Others" and "Folders", and returns the first
  category whose rule matches in full (extension membership for a non-empty list, the
  lower and the upper size bound where configured); it returns "Others" when there is
  none. Setting the year flags of the rules to any values leaves the result unchanged.
\<close>

theorem match_category_first_match:
  "(match_category md routing = ''Others'' \<and> (\<forall>item \<in> set routing. \<not> eligible md item)
    \<or> (\<exists>i < length routing. eligible md (routing ! i) \<and> (\<forall>j < i. \<not> eligible md (routing ! j))
          \<and> match_category md routing = fst (routing ! i)))
   \<and> match_category md (map (\<lambda>(c, r). (c, r\<lparr>r_year := flag c\<rparr>)) routing) = match_category md routing"
proof
  show "match_category md routing = ''Others'' \<and> (\<forall>item \<in> set routing. \<not> eligible md item)
    \<or> (\<exists>i < length routing. eligible md (routing ! i) \<and> (\<forall>j < i. \<not> eligible md (routing ! j))
          \<and> match_category md routing = fst (routing ! i))"
  proof (cases "find (eligible md) routing")
    case None
    then have "\<forall>item \<in> set routing. \<not> eligible md item"
      by (auto simp: find_None_iff)
    moreover from None have "match_category md routing = ''Others''"
      by (simp add: match_category_find)
    ultimately show ?thesis by blast
  next
    case (Some item)
    then obtain i where "i < length routing" "eligible md (routing ! i)" "item = routing ! i"
      "\<forall>j < i. \<not> eligible md (routing ! j)"
      unfolding find_Some_iff by blast
    with Some show ?thesis
      by (auto simp: match_category_find)
  qed
  show "match_category md (map (\<lambda>(c, r). (c, r\<lparr>r_year := flag c\<rparr>)) routing) = match_category md routing"
    by (induction routing) (auto simp: rule_matches_year)
qed

theorem match_category_first_match_witness:
  "match_category \<lparr>md_extension = ''.jpg'', md_size_gb = 2048 / 1024 ^ 3, md_year = 2023\<rparr>
      (images_routing [''.jpg'', ''.png'']) = ''Images''
   \<and> eligible \<lparr>md_extension = ''.jpg'', md_size_gb = 2048 / 1024 ^ 3, md_year = 2023\<rparr>
        (images_routing [''.jpg'', ''.png''] ! 0)
   \<and> match_category \<lparr>md_extension = ''.txt'', md_size_gb = 10 / 1024 ^ 3, md_year = 2024\<rparr>
      (images_routing [''.jpg'', ''.png'']) = ''Others''"
  using match_category_first_match
    [of "\<lparr>md_extension = ''.jpg'', md_size_gb = 2048 / 1024 ^ 3, md_year = 2023\<rparr>"
        "images_routing [''.jpg'', ''.png'']" "\<lambda>c. True"]
  by (simp add: images_routing_def plain_rule_def eligible_def fully_matches_def rule_matches_def)

text \<open>
  Claim C2, as amended. For a category other than the fallback "Others" whose rule
  configures a non-empty extension list, classification selects the category only if
  the file's extension, lower-cased and with its dot, is an entry of the list as it is
  written; the extension that is compared is the lower-cased suffix, so the letter case
  of the file's extension makes no difference; if the lower-cased extension is not an
  entry, the rule does not match whatever its size bounds are and the category is not
  selected. An entry written with an upper-case letter equals no file's extension.
\<close>

theorem extension_gate:
  assumes md: "get_file_metadata fs p = Inr md"
    and item: "(category, rules) \<in> set routing"
    and keys: "distinct (map fst routing)"
    and es: "r_extensions rules = Some es" "es \<noteq> []"
  shows "md_extension md = lower (psuffix p)
     \<and> (match_category md routing = category \<and> category \<noteq> ''Others''
          \<longrightarrow> lower (psuffix p) \<in> set es)
     \<and> (lower (psuffix p) \<notin> set es
          \<longrightarrow> \<not> rule_matches md (rules\<lparr>r_min_gb := lo, r_max_gb := hi\<rparr>)
              \<and> (category \<noteq> ''Others'' \<longrightarrow> match_category md routing \<noteq> category))
     \<and> (\<forall>e \<in> set es. e \<noteq> lower e \<longrightarrow> md_extension md \<noteq> e)"
proof -
  have ext: "md_extension md = lower (psuffix p)"
    using md by (rule get_file_metadata_extension)
  have gate: "rule_matches md (rules\<lparr>r_min_gb := a, r_max_gb := b\<rparr>) \<Longrightarrow> lower (psuffix p) \<in> set es" for a b
    using es ext by (auto simp: rule_matches_def split: if_splits)
  have sel: "lower (psuffix p) \<in> set es" if a: "match_category md routing = category" and b: "category \<noteq> ''Others''"
  proof -
    obtain rules' where r': "(category, rules') \<in> set routing" "rule_matches md rules'"
      using match_category_selected[OF a b] by blast
    from keys r'(1) item have "rules' = rules" by (rule eq_key_imp_eq_value)
    with r'(2) es ext show ?thesis by (auto simp: rule_matches_def split: if_splits)
  qed
  have upper: "md_extension md \<noteq> e" if "e \<noteq> lower e" for e
    using that ext lower_idem[of "psuffix p"] by auto
  from ext gate sel upper show ?thesis by blast
qed

theorem extension_gate_witness:
  "get_file_metadata inbox_fs (Absolute [''in'', ''photo.JPG'']) = Inr photo_md
   \<and> psuffix (Absolute [''in'', ''photo.JPG'']) = ''.JPG''
   \<and> md_extension photo_md = ''.jpg''
   \<and> match_category photo_md (images_routing [''.jpg'', ''.png'']) = ''Images''
   \<and> lower (psuffix (Absolute [''in'', ''photo.JPG''])) \<in> set [''.jpg'', ''.png'']"
  using extension_gate [OF md_photo', of "''Images''"
      "plain_rule\<lparr>r_path := Some (Absolute [''dest'', ''img'']), r_extensions := Some [''.jpg'', ''.png'']\<rparr>"
      "images_routing [''.jpg'', ''.png'']" "[''.jpg'', ''.png'']" None None]
  by (simp add: images_routing_def plain_rule_def photo_md_def rule_matches_def str_defs md_photo)

text \<open>
  Claim C2 as stated fails: the same file is classified differently when an entry of
  the configured list is written in another letter case.
\<close>

theorem extension_entry_case_counterexample:
  "get_file_metadata inbox_fs (Absolute [''in'', ''photo.JPG'']) = Inr photo_md
   \<and> match_category photo_md (images_routing [''.jpg'']) = ''Images''
   \<and> match_category photo_md (images_routing [''.JPG'']) = ''Others''
   \<and> lower ''.JPG'' = lower ''.jpg''"
  by (simp add: images_routing_def plain_rule_def photo_md_def rule_matches_def str_defs md_photo)







text \<open>
  Claim C6. The watch handler sorts the file of an event exactly when the path is a
  regular file as the event arrives, its name starts neither with a dot nor with a
  tilde, and \<open>sort_file\<close> succeeds on the file system as it is after the settle delay;
  a sorted file was therefore a regular file after the delay, with a name of neither
  kind. When that verification fails, nothing is moved: the event is dropped and the
  file system stays as it is, or, for a path that is no longer a regular file,
  \<open>sort_file\<close> refuses it before any move. A name with a leading dot or tilde is always
  dropped. Only file events reach the handler's routine: a created file with its
  path, a moved file with its destination.
\<close>

theorem watch_verifies_before_moving:
  "(\<forall>cat dest fs2. process fs0 fs1 config p = (Sorted cat dest, fs2) \<longleftrightarrow>
        is_file fs0 p \<and> \<not> prefix ''.'' (pname p) \<and> \<not> prefix ''~'' (pname p)
        \<and> sort_file fs1 p config None = (Inr (cat, dest), fs2))
   \<and> (\<forall>cat dest fs2. process fs0 fs1 config p = (Sorted cat dest, fs2) \<longrightarrow>
        is_file fs1 p \<and> \<not> prefix ''.'' (pname p) \<and> \<not> prefix ''~'' (pname p))
   \<and> (\<not> (is_file fs1 p \<and> \<not> prefix ''.'' (pname p) \<and> \<not> prefix ''~'' (pname p)) \<longrightarrow>
        (process fs0 fs1 config p = (Dropped, fs0)
         \<or> process fs0 fs1 config p = (Dropped, fs1)
         \<or> process fs0 fs1 config p = (Failed ValueError, fs1)))
   \<and> (prefix ''.'' (pname p) \<or> prefix ''~'' (pname p) \<longrightarrow>
        process fs0 fs1 config p = (Dropped, fs0))
   \<and> (\<not> p_exists fs1 p \<longrightarrow>
        process fs0 fs1 config p = (Dropped, fs0) \<or> process fs0 fs1 config p = (Dropped, fs1))
   \<and> on_created fs0 fs1 config (FileCreatedEvent p) = process fs0 fs1 config p
   \<and> on_moved fs0 fs1 config (FileMovedEvent q p) = process fs0 fs1 config p
   \<and> on_created fs0 fs1 config (DirCreatedEvent p) = (Dropped, fs0)
   \<and> on_moved fs0 fs1 config (DirMovedEvent q p) = (Dropped, fs0)"
proof -
  have a: "\<forall>cat dest fs2. process fs0 fs1 config p = (Sorted cat dest, fs2) \<longleftrightarrow>
        is_file fs0 p \<and> \<not> prefix ''.'' (pname p) \<and> \<not> prefix ''~'' (pname p)
        \<and> sort_file fs1 p config None = (Inr (cat, dest), fs2)"
    by (intro allI) (rule process_sorted_iff)
  have b: "\<forall>cat dest fs2. process fs0 fs1 config p = (Sorted cat dest, fs2) \<longrightarrow>
        is_file fs1 p \<and> \<not> prefix ''.'' (pname p) \<and> \<not> prefix ''~'' (pname p)"
  proof (intro allI impI)
    fix cat dest fs2
    assume "process fs0 fs1 config p = (Sorted cat dest, fs2)"
    then have n: "\<not> prefix ''.'' (pname p) \<and> \<not> prefix ''~'' (pname p)"
      and s: "sort_file fs1 p config None = (Inr (cat, dest), fs2)"
      by (simp_all add: process_sorted_iff)
    have "is_file fs1 p"
    proof (rule ccontr)
      assume "\<not> is_file fs1 p"
      from sort_file_needs_file[OF this, of config None] s show False by simp
    qed
    with n show "is_file fs1 p \<and> \<not> prefix ''.'' (pname p) \<and> \<not> prefix ''~'' (pname p)"
      by simp
  qed
  have c: "\<not> (is_file fs1 p \<and> \<not> prefix ''.'' (pname p) \<and> \<not> prefix ''~'' (pname p)) \<longrightarrow>
        (process fs0 fs1 config p = (Dropped, fs0)
         \<or> process fs0 fs1 config p = (Dropped, fs1)
         \<or> process fs0 fs1 config p = (Failed ValueError, fs1))"
    by (cases "is_file fs1 p") (auto simp: process_def sort_file_needs_file)
  have d: "prefix ''.'' (pname p) \<or> prefix ''~'' (pname p) \<longrightarrow>
        process fs0 fs1 config p = (Dropped, fs0)"
    by (auto simp: process_def)
  have e: "\<not> p_exists fs1 p \<longrightarrow>
        process fs0 fs1 config p = (Dropped, fs0) \<or> process fs0 fs1 config p = (Dropped, fs1)"
    by (auto simp: process_def)
  have f: "on_created fs0 fs1 config (FileCreatedEvent p) = process fs0 fs1 config p"
    "on_moved fs0 fs1 config (FileMovedEvent q p) = process fs0 fs1 config p"
    "on_created fs0 fs1 config (DirCreatedEvent p) = (Dropped, fs0)"
    "on_moved fs0 fs1 config (DirMovedEvent q p) = (Dropped, fs0)"
    by (simp_all add: on_created_def on_moved_def)
  from a b c d e f show ?thesis by (intro conjI)
qed

theorem watch_verifies_before_moving_witness:
  "process watch_fs0 watch_fs1 watch_config (Absolute [''in'', ''report.txt''])
     = (Sorted ''Docs'' (Absolute [''dest'', ''docs'', ''report.txt'']), watch_fs2)
   \<and> is_file watch_fs1 (Absolute [''in'', ''report.txt''])
   \<and> is_file watch_fs0 (Absolute [''in'', ''.tmp_partial''])
   \<and> is_file watch_fs1 (Absolute [''in'', ''.tmp_partial''])
   \<and> process watch_fs0 watch_fs1 watch_config (Absolute [''in'', ''.tmp_partial''])
       = (Dropped, watch_fs0)
   \<and> on_created watch_fs0 watch_fs1 watch_config (FileCreatedEvent (Absolute [''in'', ''.tmp_partial'']))
       = (Dropped, watch_fs0)
   \<and> process watch_fs0 watch_fs1 watch_config (Absolute [''in'', ''~lock'']) = (Dropped, watch_fs0)
   \<and> process watch_fs0 watch_fs1 watch_config (Absolute [''in'', ''gone.txt'']) = (Dropped, watch_fs1)
   \<and> process watch_fs0 watch_fs1 watch_config (Absolute [''in'', ''turned.txt''])
       = (Failed ValueError, watch_fs1)"
proof -
  let ?r = "Absolute [''in'', ''report.txt'']" and ?t = "Absolute [''in'', ''.tmp_partial'']"
  let ?l = "Absolute [''in'', ''~lock'']"
  note tr = watch_verifies_before_moving[of watch_fs0 watch_fs1 watch_config ?r]
  note tt = watch_verifies_before_moving[of watch_fs0 watch_fs1 watch_config ?t ?t]
  note tl = watch_verifies_before_moving[of watch_fs0 watch_fs1 watch_config ?l]
  have f0: "is_file watch_fs0 ?r" "is_file watch_fs0 ?t" "is_file watch_fs1 ?t"
    by (simp_all add: is_file_def watch_fs0_def watch_fs1_def lookup_def key_def)
  have nr: "\<not> prefix ''.'' (pname ?r) \<and> \<not> prefix ''~'' (pname ?r)"
    by (simp add: pname_def)
  from tr[THEN conjunct1, rule_format, of "''Docs''" "Absolute [''dest'', ''docs'', ''report.txt'']" watch_fs2]
    f0(1) nr sort_report
  have A: "process watch_fs0 watch_fs1 watch_config ?r
     = (Sorted ''Docs'' (Absolute [''dest'', ''docs'', ''report.txt'']), watch_fs2)"
    by blast
  from tr[THEN conjunct2, THEN conjunct1, rule_format, OF A]
  have B: "is_file watch_fs1 ?r" by simp
  have "prefix ''.'' (pname ?t) \<or> prefix ''~'' (pname ?t)" by (simp add: pname_def)
  with tt have C: "process watch_fs0 watch_fs1 watch_config ?t = (Dropped, watch_fs0)"
    by blast
  from tt C have D: "on_created watch_fs0 watch_fs1 watch_config (FileCreatedEvent ?t)
       = (Dropped, watch_fs0)" by simp
  have "prefix ''.'' (pname ?l) \<or> prefix ''~'' (pname ?l)" by (simp add: pname_def)
  with tl have E: "process watch_fs0 watch_fs1 watch_config ?l = (Dropped, watch_fs0)"
    by blast
  have F: "process watch_fs0 watch_fs1 watch_config (Absolute [''in'', ''gone.txt'']) = (Dropped, watch_fs1)"
    by (simp add: process_def is_file_def p_exists_def watch_fs0_def watch_fs1_def lookup_def
        key_def pname_def)
  have G: "process watch_fs0 watch_fs1 watch_config (Absolute [''in'', ''turned.txt''])
       = (Failed ValueError, watch_fs1)"
    by (simp add: process_def sort_file_def is_file_def p_exists_def watch_fs0_def watch_fs1_def
        lookup_def key_def pname_def)
  from A B f0(2,3) C D E F G show ?thesis by (intro conjI)
qed

text \<open>
  Claim C4. In default routing a directory entry that cannot be moved ends the whole
  run: the target holds the folder \<open>Folders\<close> of an earlier run and the file
  \<open>notes.txt\<close>; \<open>Folders\<close> comes first, \<open>sort_folder\<close> tries to move it into itself, and the
  error leaves \<open>interactive_sort\<close> with \<open>notes.txt\<close> still unsorted. A file that cannot be
  moved does not end the run: its error is caught and the files after it are sorted.
\<close>

theorem intact_folder_failure_ends_batch:
  "interactive_sort rerun_fs (Absolute [''t'']) rerun_config None False
     = (Inl ShutilError, rerun_fs)
   \<and> is_file rerun_fs (Absolute [''t'', ''notes.txt''])
   \<and> interactive_sort blocked_fs (Absolute [''t'']) blocked_config None False
     = (Inr 2, blocked_after)
   \<and> is_file blocked_after (Absolute [''t'', ''notes.txt''])"
  by (simp add: rerun_aborts blocked_continues)
     (simp add: is_file_def key_def lookup_def rerun_fs_def blocked_after_def)

end
